theory Spec2Isabelle
  imports Main
begin

section \<open>Tutorial 13: \<open>plot_mission\<close>\<close>

text \<open>
  The notebook \<^verbatim>\<open>Tutorial_13_Plot_Mission.ipynb\<close> defines one function:
  \<^verbatim>\<open>
  def plot_mission(nexus):

      results   = nexus.results.base

      # Plot Aerodynamic Coefficients
      plot_aerodynamic_coefficients(results)

      # Drag Components
      plot_drag_components(results)

      # Plot Altitude, sfc, vehicle weight
      plot_altitude_sfc_weight(results)

      return
  \<close>
  The three plotting routines come from \<^verbatim>\<open>RCAIDE.Library.Plots\<close> and the class of
  \<open>nexus\<close> from the framework; neither is part of these sources, so both are parameters
  of the model.
\<close>

subsection \<open>Values, exceptions, events\<close>

text \<open>
  A Python value is \<open>None\<close> or a reference to an object; two references are the same
  object exactly when their addresses are equal.
\<close>

type_synonym addr = nat

datatype pyval = PyNone | PyRef addr

datatype pyexc = AttributeError | Exception string

text \<open>The names the function calls.\<close>

datatype plot_name =
  plot_aerodynamic_coefficients | plot_drag_components | plot_altitude_sfc_weight

text \<open>
  What a run does, in order: reading attribute \<open>a\<close> of a value, and calling a plotting
  routine on a value.
\<close>

datatype event = GetAttr pyval string | Call plot_name pyval

fun is_call :: "event \<Rightarrow> bool" where
  "is_call (Call f v) = True"
| "is_call (GetAttr v a) = False"

definition calls :: "event list \<Rightarrow> event list" where
  "calls t = filter is_call t"

definition reads :: "event list \<Rightarrow> event list" where
  "reads t = filter (\<lambda>ev. \<not> is_call ev) t"

subsection \<open>The environment of the function\<close>

text \<open>
  The world \<open>'w\<close> is everything outside the function: the objects, the figures, the
  screen. An operation of the environment either does not return (\<open>None\<close>), or raises
  (\<open>Inl\<close>) or returns a value (\<open>Inr\<close>), and then leaves a world.
  \<^item> \<open>lookup\<close> is the attribute read \<open>v.a\<close>. Python hands the read to the class of
    \<open>v\<close> (a property, \<^verbatim>\<open>__getattr__\<close>, \<^verbatim>\<open>__getattribute__\<close>), whose code may change
    the objects: the read yields a world like any other operation.
  \<^item> \<open>routine f\<close> is the plotting routine named \<open>f\<close>: it may change the world, also when
    it raises.
\<close>

record 'w env =
  lookup :: "'w \<Rightarrow> pyval \<Rightarrow> string \<Rightarrow> ((pyexc + pyval) \<times> 'w) option"
  routine :: "plot_name \<Rightarrow> pyval \<Rightarrow> 'w \<Rightarrow> ((pyexc + pyval) \<times> 'w) option"

text \<open>
  A statement maps the world to the events it performs and, when it terminates, to its
  outcome and the world it leaves. Sequencing stops at the first statement that raises
  or does not return, as Python does in a body without \<^verbatim>\<open>try\<close>.
\<close>

type_synonym ('w, 'a) py = "'w \<Rightarrow> event list \<times> ((pyexc + 'a) \<times> 'w) option"

definition py_return :: "'a \<Rightarrow> ('w, 'a) py" where
  "py_return v w = ([], Some (Inr v, w))"

definition py_bind :: "('w, 'a) py \<Rightarrow> ('a \<Rightarrow> ('w, 'b) py) \<Rightarrow> ('w, 'b) py" where
  "py_bind m f w =
     (case m w of
        (t, None) \<Rightarrow> (t, None)
      | (t, Some (Inl e, w')) \<Rightarrow> (t, Some (Inl e, w'))
      | (t, Some (Inr v, w')) \<Rightarrow> (case f v w' of (t', r) \<Rightarrow> (t @ t', r)))"

definition getattr :: "'w env \<Rightarrow> pyval \<Rightarrow> string \<Rightarrow> ('w, pyval) py" where
  "getattr E v a w = ([GetAttr v a], lookup E w v a)"

definition call :: "'w env \<Rightarrow> plot_name \<Rightarrow> pyval \<Rightarrow> ('w, pyval) py" where
  "call E f v w = ([Call f v], routine E f v w)"

subsection \<open>The function\<close>

definition plot_mission :: "'w env \<Rightarrow> pyval \<Rightarrow> ('w, pyval) py" where
  "plot_mission E nexus =
     py_bind (getattr E nexus ''results'') (\<lambda>nexus_results.
     py_bind (getattr E nexus_results ''base'') (\<lambda>results.
     py_bind (call E plot_aerodynamic_coefficients results) (\<lambda>_.
     py_bind (call E plot_drag_components results) (\<lambda>_.
     py_bind (call E plot_altitude_sfc_weight results) (\<lambda>_.
     py_return PyNone)))))"

subsection \<open>Example environments\<close>

text \<open>
  The world is a store that gives each address the attributes of the object there.
  Plain Python objects: a read changes nothing, and reading an attribute the object
  does not have raises \<open>AttributeError\<close>, as it does on \<open>None\<close>.
\<close>

type_synonym store = "addr \<Rightarrow> (string \<rightharpoonup> pyval)"

fun object_lookup :: "store \<Rightarrow> pyval \<Rightarrow> string \<Rightarrow> ((pyexc + pyval) \<times> store) option" where
  "object_lookup h (PyRef p) a =
     (case h p a of None \<Rightarrow> Some (Inl AttributeError, h) | Some v \<Rightarrow> Some (Inr v, h))"
| "object_lookup h PyNone a = Some (Inl AttributeError, h)"

definition mark :: "string \<Rightarrow> addr \<Rightarrow> store \<Rightarrow> store" where
  "mark tag p h = h(p := (h p)(tag \<mapsto> PyNone))"

text \<open>
  Objects of a class whose reads leave a trace on the object, as a property that caches
  what it computed does: a read that succeeds sets the attribute \<open>touched\<close>.
\<close>

fun tracking_lookup :: "store \<Rightarrow> pyval \<Rightarrow> string \<Rightarrow> ((pyexc + pyval) \<times> store) option" where
  "tracking_lookup h (PyRef p) a =
     (case h p a of
        None \<Rightarrow> Some (Inl AttributeError, h)
      | Some v \<Rightarrow> Some (Inr v, mark ''touched'' p h))"
| "tracking_lookup h PyNone a = Some (Inl AttributeError, h)"

text \<open>
  A plotting routine that draws and remembers on the object that it has drawn it, under
  the attribute \<open>tag\<close>.
\<close>

fun draw :: "string \<Rightarrow> pyval \<Rightarrow> store \<Rightarrow> ((pyexc + pyval) \<times> store) option" where
  "draw tag (PyRef p) h = Some (Inr PyNone, mark tag p h)"
| "draw tag PyNone h = Some (Inl AttributeError, h)"

fun draw_all :: "plot_name \<Rightarrow> pyval \<Rightarrow> store \<Rightarrow> ((pyexc + pyval) \<times> store) option" where
  "draw_all plot_aerodynamic_coefficients = draw ''aero''"
| "draw_all plot_drag_components = draw ''drag''"
| "draw_all plot_altitude_sfc_weight = draw ''sfc''"

text \<open>The same, except that the first routine finds no data to plot and raises.\<close>

fun draw_failing :: "plot_name \<Rightarrow> pyval \<Rightarrow> store \<Rightarrow> ((pyexc + pyval) \<times> store) option" where
  "draw_failing plot_aerodynamic_coefficients = (\<lambda>v h. Some (Inl (Exception ''KeyError''), h))"
| "draw_failing plot_drag_components = draw ''drag''"
| "draw_failing plot_altitude_sfc_weight = draw ''sfc''"

text \<open>
  A routine that draws once: on an object that carries its \<open>tag\<close> already, it waits
  for the figure that is open and does not return.
\<close>

fun draw_once :: "string \<Rightarrow> pyval \<Rightarrow> store \<Rightarrow> ((pyexc + pyval) \<times> store) option" where
  "draw_once tag (PyRef p) h =
     (case h p tag of None \<Rightarrow> Some (Inr PyNone, mark tag p h) | Some v \<Rightarrow> None)"
| "draw_once tag PyNone h = Some (Inl AttributeError, h)"

fun draw_once_all :: "plot_name \<Rightarrow> pyval \<Rightarrow> store \<Rightarrow> ((pyexc + pyval) \<times> store) option" where
  "draw_once_all plot_aerodynamic_coefficients = draw_once ''aero''"
| "draw_once_all plot_drag_components = draw_once ''drag''"
| "draw_once_all plot_altitude_sfc_weight = draw_once ''sfc''"

text \<open>Routines that draw on the screen only.\<close>

definition draw_screen :: "plot_name \<Rightarrow> pyval \<Rightarrow> store \<Rightarrow> ((pyexc + pyval) \<times> store) option" where
  "draw_screen f v h = Some (Inr PyNone, h)"

definition plain_env :: "store env" where
  "plain_env = \<lparr>lookup = object_lookup, routine = draw_all\<rparr>"

definition failing_env :: "store env" where
  "failing_env = \<lparr>lookup = object_lookup, routine = draw_failing\<rparr>"

definition once_env :: "store env" where
  "once_env = \<lparr>lookup = object_lookup, routine = draw_once_all\<rparr>"

definition tracking_env :: "store env" where
  "tracking_env = \<lparr>lookup = tracking_lookup, routine = draw_screen\<rparr>"

text \<open>
  Object 10 is a nexus whose \<open>results\<close> is object 11, whose \<open>base\<close> is object 12;
  object 20 is another nexus with its own \<open>results\<close> (object 21) and the same \<open>base\<close>;
  object 30 has a \<open>results\<close> (object 31) without \<open>base\<close>; every other object has no
  attribute.
\<close>

definition example_store :: store where
  "example_store =
     (\<lambda>p. Map.empty)
       (10 := [''results'' \<mapsto> PyRef 11, ''summary'' \<mapsto> PyNone],
        11 := [''base'' \<mapsto> PyRef 12],
        20 := [''results'' \<mapsto> PyRef 21],
        21 := [''base'' \<mapsto> PyRef 12],
        30 := [''results'' \<mapsto> PyRef 31])"

section \<open>How a run unfolds\<close>

text \<open>
  Every run of \<open>plot_mission\<close>, by the first step that raises or does not return: the
  events performed up to that step, and the outcome.
\<close>

lemma plot_mission_run:
  "plot_mission E nexus w =
     (case lookup E w nexus ''results'' of
        None \<Rightarrow> ([GetAttr nexus ''results''], None)
      | Some (Inl e, w1) \<Rightarrow> ([GetAttr nexus ''results''], Some (Inl e, w1))
      | Some (Inr r0, w1) \<Rightarrow>
     (case lookup E w1 r0 ''base'' of
        None \<Rightarrow> ([GetAttr nexus ''results'', GetAttr r0 ''base''], None)
      | Some (Inl e, w2) \<Rightarrow>
          ([GetAttr nexus ''results'', GetAttr r0 ''base''], Some (Inl e, w2))
      | Some (Inr results, w2) \<Rightarrow>
     (case routine E plot_aerodynamic_coefficients results w2 of
        None \<Rightarrow>
          ([GetAttr nexus ''results'', GetAttr r0 ''base'',
            Call plot_aerodynamic_coefficients results], None)
      | Some (Inl e, w3) \<Rightarrow>
          ([GetAttr nexus ''results'', GetAttr r0 ''base'',
            Call plot_aerodynamic_coefficients results], Some (Inl e, w3))
      | Some (Inr v1, w3) \<Rightarrow>
     (case routine E plot_drag_components results w3 of
        None \<Rightarrow>
          ([GetAttr nexus ''results'', GetAttr r0 ''base'',
            Call plot_aerodynamic_coefficients results,
            Call plot_drag_components results], None)
      | Some (Inl e, w4) \<Rightarrow>
          ([GetAttr nexus ''results'', GetAttr r0 ''base'',
            Call plot_aerodynamic_coefficients results,
            Call plot_drag_components results], Some (Inl e, w4))
      | Some (Inr v2, w4) \<Rightarrow>
     (case routine E plot_altitude_sfc_weight results w4 of
        None \<Rightarrow>
          ([GetAttr nexus ''results'', GetAttr r0 ''base'',
            Call plot_aerodynamic_coefficients results,
            Call plot_drag_components results,
            Call plot_altitude_sfc_weight results], None)
      | Some (Inl e, w5) \<Rightarrow>
          ([GetAttr nexus ''results'', GetAttr r0 ''base'',
            Call plot_aerodynamic_coefficients results,
            Call plot_drag_components results,
            Call plot_altitude_sfc_weight results], Some (Inl e, w5))
      | Some (Inr v3, w5) \<Rightarrow>
          ([GetAttr nexus ''results'', GetAttr r0 ''base'',
            Call plot_aerodynamic_coefficients results,
            Call plot_drag_components results,
            Call plot_altitude_sfc_weight results], Some (Inr PyNone, w5)))))))"
  by (simp add: plot_mission_def py_bind_def getattr_def call_def py_return_def
      split: option.split sum.split prod.split)

text \<open>The example environments, evaluated.\<close>

lemma lookup_plain [simp]: "lookup plain_env = object_lookup"
  by (simp add: plain_env_def)

lemma routine_plain [simp]: "routine plain_env = draw_all"
  by (simp add: plain_env_def)

lemma lookup_failing [simp]: "lookup failing_env = object_lookup"
  by (simp add: failing_env_def)

lemma routine_failing [simp]: "routine failing_env = draw_failing"
  by (simp add: failing_env_def)

lemma lookup_once [simp]: "lookup once_env = object_lookup"
  by (simp add: once_env_def)

lemma routine_once [simp]: "routine once_env = draw_once_all"
  by (simp add: once_env_def)

lemma lookup_tracking [simp]: "lookup tracking_env = tracking_lookup"
  by (simp add: tracking_env_def)

lemma routine_tracking [simp]: "routine tracking_env = draw_screen"
  by (simp add: tracking_env_def)

lemma example_store_simps:
  "example_store 10 ''results'' = Some (PyRef 11)"
  "example_store 11 ''base'' = Some (PyRef 12)"
  "example_store 20 ''results'' = Some (PyRef 21)"
  "example_store 21 ''base'' = Some (PyRef 12)"
  "example_store 30 ''results'' = Some (PyRef 31)"
  "example_store 31 ''base'' = None"
  "example_store 40 ''results'' = None"
  "example_store 10 ''touched'' = None"
  "example_store 12 a = None"
  by (simp_all add: example_store_def)

lemma mark_simps:
  "mark tag p h p a = (if a = tag then Some PyNone else h p a)"
  "q \<noteq> p \<Longrightarrow> mark tag p h q = h q"
  by (simp_all add: mark_def)

text \<open>The three calls of a first run on object 12, with routines that draw once.\<close>

lemma draw_once_steps:
  "routine once_env plot_aerodynamic_coefficients (PyRef 12) example_store =
     Some (Inr PyNone, mark ''aero'' 12 example_store)"
  "routine once_env plot_drag_components (PyRef 12) (mark ''aero'' 12 example_store) =
     Some (Inr PyNone, mark ''drag'' 12 (mark ''aero'' 12 example_store))"
  "routine once_env plot_altitude_sfc_weight (PyRef 12)
       (mark ''drag'' 12 (mark ''aero'' 12 example_store)) =
     Some (Inr PyNone, mark ''sfc'' 12 (mark ''drag'' 12 (mark ''aero'' 12 example_store)))"
  by (simp_all add: example_store_simps mark_simps)

section \<open>The calls a run makes\<close>

text \<open>
  Claim C1, as stated: whenever the attribute chain \<open>nexus.results.base\<close> succeeds, a
  call of \<open>plot_mission\<close> invokes the three plotting routines, each once, in order.
  It fails where a plotting routine raises: in \<open>failing_env\<close> the chain succeeds on
  object 10, the first routine raises, and the other two are never called.
\<close>

theorem plot_mission_three_calls_counterexample:
  "lookup failing_env example_store (PyRef 10) ''results'' =
     Some (Inr (PyRef 11), example_store) \<and>
   lookup failing_env example_store (PyRef 11) ''base'' =
     Some (Inr (PyRef 12), example_store) \<and>
   calls (fst (plot_mission failing_env (PyRef 10) example_store)) =
     [Call plot_aerodynamic_coefficients (PyRef 12)] \<and>
   calls (fst (plot_mission failing_env (PyRef 10) example_store)) \<noteq>
     [Call plot_aerodynamic_coefficients (PyRef 12), Call plot_drag_components (PyRef 12),
      Call plot_altitude_sfc_weight (PyRef 12)]"
  by (simp add: plot_mission_run calls_def example_store_simps)

text \<open>
  Claim C1, amended: when the attribute chain \<open>nexus.results.base\<close> succeeds and the
  calls of \<open>plot_aerodynamic_coefficients\<close> and \<open>plot_drag_components\<close> return
  normally, \<open>plot_mission\<close> invokes exactly three plotting routines:
  \<open>plot_aerodynamic_coefficients\<close>, then \<open>plot_drag_components\<close>, then
  \<open>plot_altitude_sfc_weight\<close>, each once, each on the object \<open>nexus.results.base\<close>.
\<close>

theorem plot_mission_three_calls:
  assumes "lookup E w nexus ''results'' = Some (Inr r0, w1)"
    and "lookup E w1 r0 ''base'' = Some (Inr results, w2)"
    and "routine E plot_aerodynamic_coefficients results w2 = Some (Inr v1, w3)"
    and "routine E plot_drag_components results w3 = Some (Inr v2, w4)"
  shows "calls (fst (plot_mission E nexus w)) =
           [Call plot_aerodynamic_coefficients results, Call plot_drag_components results,
            Call plot_altitude_sfc_weight results]"
  using assms
  by (simp add: plot_mission_run calls_def split: option.split sum.split prod.split)

theorem plot_mission_three_calls_witness:
  "lookup plain_env example_store (PyRef 10) ''results'' =
     Some (Inr (PyRef 11), example_store) \<and>
   lookup plain_env example_store (PyRef 11) ''base'' =
     Some (Inr (PyRef 12), example_store) \<and>
   calls (fst (plot_mission plain_env (PyRef 10) example_store)) =
     [Call plot_aerodynamic_coefficients (PyRef 12), Call plot_drag_components (PyRef 12),
      Call plot_altitude_sfc_weight (PyRef 12)]"
proof -
  have h1: "lookup plain_env example_store (PyRef 10) ''results'' =
              Some (Inr (PyRef 11), example_store)"
    by (simp add: example_store_simps)
  have h2: "lookup plain_env example_store (PyRef 11) ''base'' =
              Some (Inr (PyRef 12), example_store)"
    by (simp add: example_store_simps)
  have h3: "routine plain_env plot_aerodynamic_coefficients (PyRef 12) example_store =
              Some (Inr PyNone, mark ''aero'' 12 example_store)"
    by simp
  have h4: "routine plain_env plot_drag_components (PyRef 12) (mark ''aero'' 12 example_store) =
              Some (Inr PyNone, mark ''drag'' 12 (mark ''aero'' 12 example_store))"
    by simp
  show ?thesis
    using plot_mission_three_calls [OF h1 h2 h3 h4] h1 h2 by simp
qed

section \<open>The straight line\<close>

text \<open>
  Claim C4: \<open>plot_mission\<close> is a straight line of three calls, with no branch, and its
  value is of no consequence. Whenever its body succeeds, that is, the two reads and
  the three calls return normally, each in the world the one before left, the run is
  the two reads and then the three calls, in order and on the one object read, and
  nothing else, and \<open>plot_mission\<close> returns \<open>None\<close> in the world the last call left.
\<close>

theorem plot_mission_straight_line:
  assumes "lookup E w nexus ''results'' = Some (Inr r0, w1)"
    and "lookup E w1 r0 ''base'' = Some (Inr results, w2)"
    and "routine E plot_aerodynamic_coefficients results w2 = Some (Inr v1, w3)"
    and "routine E plot_drag_components results w3 = Some (Inr v2, w4)"
    and "routine E plot_altitude_sfc_weight results w4 = Some (Inr v3, w5)"
  shows "plot_mission E nexus w =
           ([GetAttr nexus ''results'', GetAttr r0 ''base'',
             Call plot_aerodynamic_coefficients results, Call plot_drag_components results,
             Call plot_altitude_sfc_weight results],
            Some (Inr PyNone, w5))"
  using assms by (simp add: plot_mission_run)

theorem plot_mission_straight_line_witness:
  "lookup plain_env example_store (PyRef 10) ''results'' =
     Some (Inr (PyRef 11), example_store) \<and>
   lookup plain_env example_store (PyRef 11) ''base'' =
     Some (Inr (PyRef 12), example_store) \<and>
   routine plain_env plot_aerodynamic_coefficients (PyRef 12) example_store =
     Some (Inr PyNone, mark ''aero'' 12 example_store) \<and>
   routine plain_env plot_drag_components (PyRef 12) (mark ''aero'' 12 example_store) =
     Some (Inr PyNone, mark ''drag'' 12 (mark ''aero'' 12 example_store)) \<and>
   routine plain_env plot_altitude_sfc_weight (PyRef 12)
       (mark ''drag'' 12 (mark ''aero'' 12 example_store)) =
     Some (Inr PyNone, mark ''sfc'' 12 (mark ''drag'' 12 (mark ''aero'' 12 example_store))) \<and>
   plot_mission plain_env (PyRef 10) example_store =
     ([GetAttr (PyRef 10) ''results'', GetAttr (PyRef 11) ''base'',
       Call plot_aerodynamic_coefficients (PyRef 12), Call plot_drag_components (PyRef 12),
       Call plot_altitude_sfc_weight (PyRef 12)],
      Some (Inr PyNone, mark ''sfc'' 12 (mark ''drag'' 12 (mark ''aero'' 12 example_store))))"
proof -
  have h1: "lookup plain_env example_store (PyRef 10) ''results'' =
              Some (Inr (PyRef 11), example_store)"
    by (simp add: example_store_simps)
  have h2: "lookup plain_env example_store (PyRef 11) ''base'' =
              Some (Inr (PyRef 12), example_store)"
    by (simp add: example_store_simps)
  have h3: "routine plain_env plot_aerodynamic_coefficients (PyRef 12) example_store =
              Some (Inr PyNone, mark ''aero'' 12 example_store)"
    by simp
  have h4: "routine plain_env plot_drag_components (PyRef 12) (mark ''aero'' 12 example_store) =
              Some (Inr PyNone, mark ''drag'' 12 (mark ''aero'' 12 example_store))"
    by simp
  have h5: "routine plain_env plot_altitude_sfc_weight (PyRef 12)
              (mark ''drag'' 12 (mark ''aero'' 12 example_store)) =
              Some (Inr PyNone, mark ''sfc'' 12 (mark ''drag'' 12 (mark ''aero'' 12 example_store)))"
    by simp
  from plot_mission_straight_line [OF h1 h2 h3 h4 h5] h1 h2 h3 h4 h5
  show ?thesis by blast
qed

section \<open>Exceptions\<close>

text \<open>
  Claim C2: \<open>plot_mission\<close> validates nothing, raises nothing of its own and handles
  nothing. A call raises \<open>e\<close> exactly when one of its five steps, reached after the
  steps before it have returned, raises \<open>e\<close>: the read of \<open>nexus.results\<close>, the read
  of \<open>base\<close> on what that gave, or one of the three plotting calls. From right to left,
  the exception of a step reaches the caller unchanged, in the world that the step left;
  from left to right, every exception of \<open>plot_mission\<close> is the exception of a step.
\<close>

theorem plot_mission_raises:
  "snd (plot_mission E nexus w) = Some (Inl e, w') \<longleftrightarrow>
     lookup E w nexus ''results'' = Some (Inl e, w') \<or>
     (\<exists>r0 w1. lookup E w nexus ''results'' = Some (Inr r0, w1) \<and>
        (lookup E w1 r0 ''base'' = Some (Inl e, w') \<or>
         (\<exists>results w2. lookup E w1 r0 ''base'' = Some (Inr results, w2) \<and>
            (routine E plot_aerodynamic_coefficients results w2 = Some (Inl e, w') \<or>
             (\<exists>v1 w3. routine E plot_aerodynamic_coefficients results w2 = Some (Inr v1, w3) \<and>
                (routine E plot_drag_components results w3 = Some (Inl e, w') \<or>
                 (\<exists>v2 w4. routine E plot_drag_components results w3 = Some (Inr v2, w4) \<and>
                    routine E plot_altitude_sfc_weight results w4 = Some (Inl e, w'))))))))"
  by (auto simp: plot_mission_run split: option.splits sum.splits prod.splits)

theorem plot_mission_raises_witness:
  "snd (plot_mission failing_env (PyRef 10) example_store) =
     Some (Inl (Exception ''KeyError''), example_store)"
  by (rule plot_mission_raises [THEN iffD2]) (simp add: example_store_simps)

text \<open>
  Claim C9: an object has no attribute \<open>a\<close> when reading \<open>a\<close> on it raises
  \<open>AttributeError\<close> (so Python's \<^verbatim>\<open>hasattr\<close> decides). If \<open>nexus\<close> has no attribute
  \<open>results\<close>, or \<open>nexus.results\<close> has no attribute \<open>base\<close>, then \<open>plot_mission\<close>
  raises \<open>AttributeError\<close> in its first statement, in the world the failing read left,
  and no plotting routine has been called.
\<close>

theorem plot_mission_missing_attribute:
  assumes "lookup E w nexus ''results'' = Some (Inl AttributeError, w') \<or>
           (\<exists>r0 w1. lookup E w nexus ''results'' = Some (Inr r0, w1) \<and>
              lookup E w1 r0 ''base'' = Some (Inl AttributeError, w'))"
  shows "snd (plot_mission E nexus w) = Some (Inl AttributeError, w') \<and>
         calls (fst (plot_mission E nexus w)) = []"
  using assms
  by (auto simp: plot_mission_run calls_def split: option.splits sum.splits prod.splits)

theorem plot_mission_missing_attribute_witness:
  "lookup plain_env example_store (PyRef 30) ''results'' =
     Some (Inr (PyRef 31), example_store) \<and>
   lookup plain_env example_store (PyRef 31) ''base'' =
     Some (Inl AttributeError, example_store) \<and>
   snd (plot_mission plain_env (PyRef 30) example_store) =
     Some (Inl AttributeError, example_store) \<and>
   calls (fst (plot_mission plain_env (PyRef 30) example_store)) = [] \<and>
   lookup plain_env example_store (PyRef 40) ''results'' =
     Some (Inl AttributeError, example_store) \<and>
   snd (plot_mission plain_env (PyRef 40) example_store) =
     Some (Inl AttributeError, example_store) \<and>
   calls (fst (plot_mission plain_env (PyRef 40) example_store)) = []"
proof -
  have h1: "lookup plain_env example_store (PyRef 30) ''results'' =
              Some (Inr (PyRef 31), example_store)"
    and h2: "lookup plain_env example_store (PyRef 31) ''base'' =
              Some (Inl AttributeError, example_store)"
    and h3: "lookup plain_env example_store (PyRef 40) ''results'' =
              Some (Inl AttributeError, example_store)"
    by (simp_all add: example_store_simps)
  from h1 h2 have a:
    "lookup plain_env example_store (PyRef 30) ''results'' =
       Some (Inl AttributeError, example_store) \<or>
     (\<exists>r0 w1. lookup plain_env example_store (PyRef 30) ''results'' = Some (Inr r0, w1) \<and>
        lookup plain_env w1 r0 ''base'' = Some (Inl AttributeError, example_store))"
    by blast
  from h3 have b:
    "lookup plain_env example_store (PyRef 40) ''results'' =
       Some (Inl AttributeError, example_store) \<or>
     (\<exists>r0 w1. lookup plain_env example_store (PyRef 40) ''results'' = Some (Inr r0, w1) \<and>
        lookup plain_env w1 r0 ''base'' = Some (Inl AttributeError, example_store))"
    by blast
  from plot_mission_missing_attribute [OF a] plot_mission_missing_attribute [OF b] h1 h2 h3
  show ?thesis by blast
qed

section \<open>What a run changes\<close>

text \<open>
  Claim C3, as stated: after \<open>plot_mission\<close> returns, \<open>nexus\<close> and the results
  container are as they were, except for what the three plotting routines do. It fails
  where a read changes the object read: in \<open>tracking_env\<close> each of the three calls
  leaves the world as it finds it, and the call on object 10 returns in a world in which
  objects 10 and 11 carry the attribute \<open>touched\<close>, which object 10 did not have.
\<close>

theorem plot_mission_frame_counterexample:
  "lookup tracking_env example_store (PyRef 10) ''results'' =
     Some (Inr (PyRef 11), mark ''touched'' 10 example_store) \<and>
   lookup tracking_env (mark ''touched'' 10 example_store) (PyRef 11) ''base'' =
     Some (Inr (PyRef 12), mark ''touched'' 11 (mark ''touched'' 10 example_store)) \<and>
   routine tracking_env plot_aerodynamic_coefficients (PyRef 12)
       (mark ''touched'' 11 (mark ''touched'' 10 example_store)) =
     Some (Inr PyNone, mark ''touched'' 11 (mark ''touched'' 10 example_store)) \<and>
   routine tracking_env plot_drag_components (PyRef 12)
       (mark ''touched'' 11 (mark ''touched'' 10 example_store)) =
     Some (Inr PyNone, mark ''touched'' 11 (mark ''touched'' 10 example_store)) \<and>
   routine tracking_env plot_altitude_sfc_weight (PyRef 12)
       (mark ''touched'' 11 (mark ''touched'' 10 example_store)) =
     Some (Inr PyNone, mark ''touched'' 11 (mark ''touched'' 10 example_store)) \<and>
   snd (plot_mission tracking_env (PyRef 10) example_store) =
     Some (Inr PyNone, mark ''touched'' 11 (mark ''touched'' 10 example_store)) \<and>
   example_store 10 ''touched'' = None \<and>
   mark ''touched'' 11 (mark ''touched'' 10 example_store) 10 ''touched'' = Some PyNone \<and>
   mark ''touched'' 11 (mark ''touched'' 10 example_store) \<noteq> example_store"
proof -
  have reads:
    "lookup tracking_env example_store (PyRef 10) ''results'' =
       Some (Inr (PyRef 11), mark ''touched'' 10 example_store)"
    "lookup tracking_env (mark ''touched'' 10 example_store) (PyRef 11) ''base'' =
       Some (Inr (PyRef 12), mark ''touched'' 11 (mark ''touched'' 10 example_store))"
    by (simp_all add: example_store_simps mark_simps)
  have r: "routine tracking_env f v h = Some (Inr PyNone, h)" for f v h
    by (simp add: draw_screen_def)
  have run: "snd (plot_mission tracking_env (PyRef 10) example_store) =
     Some (Inr PyNone, mark ''touched'' 11 (mark ''touched'' 10 example_store))"
    by (simp add: plot_mission_run example_store_simps mark_simps draw_screen_def)
  have before: "example_store 10 ''touched'' = None"
    by (simp add: example_store_simps)
  have after: "mark ''touched'' 11 (mark ''touched'' 10 example_store) 10 ''touched'' =
                 Some PyNone"
    by (simp add: mark_simps)
  from before after
  have "mark ''touched'' 11 (mark ''touched'' 10 example_store) \<noteq> example_store"
    by (metis option.distinct(1))
  with reads r run before after show ?thesis by blast
qed

text \<open>
  Claim C3, amended: \<open>plot_mission\<close> changes nothing itself. When a call returns, the
  object read as \<open>nexus.results.base\<close> has gone, as it was read, into each of the three
  plotting calls, and the world left is the starting world changed by the two attribute
  reads of \<open>nexus.results.base\<close> and then by these three calls, one after the other, and
  by nothing else.
\<close>

theorem plot_mission_frame:
  assumes "snd (plot_mission E nexus w) = Some (Inr v, w')"
  shows "\<exists>r0 w1 results w2 v1 w3 v2 w4 v3.
           lookup E w nexus ''results'' = Some (Inr r0, w1) \<and>
           lookup E w1 r0 ''base'' = Some (Inr results, w2) \<and>
           routine E plot_aerodynamic_coefficients results w2 = Some (Inr v1, w3) \<and>
           routine E plot_drag_components results w3 = Some (Inr v2, w4) \<and>
           routine E plot_altitude_sfc_weight results w4 = Some (Inr v3, w')"
  using assms
  by (auto simp: plot_mission_run split: option.splits sum.splits prod.splits)

theorem plot_mission_frame_witness:
  "snd (plot_mission plain_env (PyRef 10) example_store) =
     Some (Inr PyNone, mark ''sfc'' 12 (mark ''drag'' 12 (mark ''aero'' 12 example_store))) \<and>
   (\<exists>r0 w1 results w2 v1 w3 v2 w4 v3.
      lookup plain_env example_store (PyRef 10) ''results'' = Some (Inr r0, w1) \<and>
      lookup plain_env w1 r0 ''base'' = Some (Inr results, w2) \<and>
      routine plain_env plot_aerodynamic_coefficients results w2 = Some (Inr v1, w3) \<and>
      routine plain_env plot_drag_components results w3 = Some (Inr v2, w4) \<and>
      routine plain_env plot_altitude_sfc_weight results w4 =
        Some (Inr v3, mark ''sfc'' 12 (mark ''drag'' 12 (mark ''aero'' 12 example_store))))"
proof -
  have h: "snd (plot_mission plain_env (PyRef 10) example_store) =
             Some (Inr PyNone, mark ''sfc'' 12 (mark ''drag'' 12 (mark ''aero'' 12 example_store)))"
    by (simp add: plot_mission_run example_store_simps)
  from plot_mission_frame [OF h] h show ?thesis by blast
qed



section \<open>What a run reads\<close>

text \<open>
  Claim C5: the reads of a run are \<open>results\<close> on the argument and then, when that
  returned, \<open>base\<close> on the value it gave, and no other; and every plotting call of the
  run is on the object that this path \<open>nexus.results.base\<close> yields.
\<close>

theorem plot_mission_reads:
  "reads (fst (plot_mission E nexus w)) =
     (case lookup E w nexus ''results'' of
        Some (Inr r0, w1) \<Rightarrow> [GetAttr nexus ''results'', GetAttr r0 ''base'']
      | _ \<Rightarrow> [GetAttr nexus ''results'']) \<and>
   (\<forall>f v. Call f v \<in> set (fst (plot_mission E nexus w)) \<longrightarrow>
      (\<exists>r0 w1 w2. lookup E w nexus ''results'' = Some (Inr r0, w1) \<and>
         lookup E w1 r0 ''base'' = Some (Inr v, w2)))"
  by (auto simp: plot_mission_run reads_def split: option.splits sum.splits prod.splits)

theorem plot_mission_reads_witness:
  "Call plot_drag_components (PyRef 12) \<in> set (fst (plot_mission plain_env (PyRef 10) example_store)) \<and>
   reads (fst (plot_mission plain_env (PyRef 10) example_store)) =
     [GetAttr (PyRef 10) ''results'', GetAttr (PyRef 11) ''base''] \<and>
   (\<exists>r0 w1 w2. lookup plain_env example_store (PyRef 10) ''results'' = Some (Inr r0, w1) \<and>
      lookup plain_env w1 r0 ''base'' = Some (Inr (PyRef 12), w2))"
proof -
  have h: "Call plot_drag_components (PyRef 12) \<in>
             set (fst (plot_mission plain_env (PyRef 10) example_store))"
    by (simp add: plot_mission_run example_store_simps)
  note t = plot_mission_reads [of plain_env "PyRef 10" example_store]
  from t have r: "reads (fst (plot_mission plain_env (PyRef 10) example_store)) =
     [GetAttr (PyRef 10) ''results'', GetAttr (PyRef 11) ''base'']"
    by (simp add: example_store_simps)
  from t h have "\<exists>r0 w1 w2.
      lookup plain_env example_store (PyRef 10) ''results'' = Some (Inr r0, w1) \<and>
      lookup plain_env w1 r0 ''base'' = Some (Inr (PyRef 12), w2)"
    by blast
  with h r show ?thesis by blast
qed



section \<open>Termination\<close>

text \<open>
  Claim C8: \<open>plot_mission\<close> has no loop and no recursion. When the two attribute reads
  of the chain \<open>nexus.results.base\<close> terminate and each of the three plotting calls
  terminates, each in the world in which the run makes it, the call of \<open>plot_mission\<close>
  terminates: it returns or raises.
\<close>

theorem plot_mission_terminates:
  assumes "lookup E w nexus ''results'' \<noteq> None"
    and "\<And>r0 w1. lookup E w nexus ''results'' = Some (Inr r0, w1) \<Longrightarrow>
           lookup E w1 r0 ''base'' \<noteq> None"
    and "\<And>r0 w1 results w2.
           lookup E w nexus ''results'' = Some (Inr r0, w1) \<Longrightarrow>
           lookup E w1 r0 ''base'' = Some (Inr results, w2) \<Longrightarrow>
           routine E plot_aerodynamic_coefficients results w2 \<noteq> None"
    and "\<And>r0 w1 results w2 v1 w3.
           lookup E w nexus ''results'' = Some (Inr r0, w1) \<Longrightarrow>
           lookup E w1 r0 ''base'' = Some (Inr results, w2) \<Longrightarrow>
           routine E plot_aerodynamic_coefficients results w2 = Some (Inr v1, w3) \<Longrightarrow>
           routine E plot_drag_components results w3 \<noteq> None"
    and "\<And>r0 w1 results w2 v1 w3 v2 w4.
           lookup E w nexus ''results'' = Some (Inr r0, w1) \<Longrightarrow>
           lookup E w1 r0 ''base'' = Some (Inr results, w2) \<Longrightarrow>
           routine E plot_aerodynamic_coefficients results w2 = Some (Inr v1, w3) \<Longrightarrow>
           routine E plot_drag_components results w3 = Some (Inr v2, w4) \<Longrightarrow>
           routine E plot_altitude_sfc_weight results w4 \<noteq> None"
  shows "\<exists>out. snd (plot_mission E nexus w) = Some out"
proof -
  obtain o1 w1 where a: "lookup E w nexus ''results'' = Some (o1, w1)"
    using assms(1) by auto
  show ?thesis
  proof (cases o1)
    case (Inl e)
    with a show ?thesis by (simp add: plot_mission_run)
  next
    case (Inr r0)
    with a have s1: "lookup E w nexus ''results'' = Some (Inr r0, w1)" by simp
    obtain o2 w2 where b: "lookup E w1 r0 ''base'' = Some (o2, w2)"
      using assms(2) [OF s1] by auto
    show ?thesis
    proof (cases o2)
      case (Inl e)
      with s1 b show ?thesis by (simp add: plot_mission_run)
    next
      case (Inr results)
      with b have s2: "lookup E w1 r0 ''base'' = Some (Inr results, w2)" by simp
      obtain o3 w3 where c: "routine E plot_aerodynamic_coefficients results w2 = Some (o3, w3)"
        using assms(3) [OF s1 s2] by auto
      show ?thesis
      proof (cases o3)
        case (Inl e)
        with s1 s2 c show ?thesis by (simp add: plot_mission_run)
      next
        case (Inr v1)
        with c have s3: "routine E plot_aerodynamic_coefficients results w2 = Some (Inr v1, w3)"
          by simp
        obtain o4 w4 where d: "routine E plot_drag_components results w3 = Some (o4, w4)"
          using assms(4) [OF s1 s2 s3] by auto
        show ?thesis
        proof (cases o4)
          case (Inl e)
          with s1 s2 s3 d show ?thesis by (simp add: plot_mission_run)
        next
          case (Inr v2)
          with d have s4: "routine E plot_drag_components results w3 = Some (Inr v2, w4)"
            by simp
          obtain o5 w5 where e: "routine E plot_altitude_sfc_weight results w4 = Some (o5, w5)"
            using assms(5) [OF s1 s2 s3 s4] by auto
          with s1 s2 s3 s4 show ?thesis
            by (cases o5) (simp_all add: plot_mission_run)
        qed
      qed
    qed
  qed
qed

theorem plot_mission_terminates_witness:
  "lookup once_env example_store (PyRef 10) ''results'' =
     Some (Inr (PyRef 11), example_store) \<and>
   lookup once_env example_store (PyRef 11) ''base'' =
     Some (Inr (PyRef 12), example_store) \<and>
   routine once_env plot_aerodynamic_coefficients (PyRef 12) example_store =
     Some (Inr PyNone, mark ''aero'' 12 example_store) \<and>
   routine once_env plot_drag_components (PyRef 12) (mark ''aero'' 12 example_store) =
     Some (Inr PyNone, mark ''drag'' 12 (mark ''aero'' 12 example_store)) \<and>
   routine once_env plot_altitude_sfc_weight (PyRef 12)
       (mark ''drag'' 12 (mark ''aero'' 12 example_store)) \<noteq> None \<and>
   routine once_env plot_aerodynamic_coefficients (PyRef 12)
       (mark ''aero'' 12 example_store) = None \<and>
   (\<exists>out. snd (plot_mission once_env (PyRef 10) example_store) = Some out)"
proof -
  have h1: "lookup once_env example_store (PyRef 10) ''results'' =
              Some (Inr (PyRef 11), example_store)"
    and h2: "lookup once_env example_store (PyRef 11) ''base'' =
              Some (Inr (PyRef 12), example_store)"
    by (simp_all add: example_store_simps)
  note h3 = draw_once_steps(1) and h4 = draw_once_steps(2) and h5 = draw_once_steps(3)
  have again: "routine once_env plot_aerodynamic_coefficients (PyRef 12)
                 (mark ''aero'' 12 example_store) = None"
    by (simp add: mark_simps)
  from h5 have h5': "routine once_env plot_altitude_sfc_weight (PyRef 12)
       (mark ''drag'' 12 (mark ''aero'' 12 example_store)) \<noteq> None"
    by simp
  have "\<exists>out. snd (plot_mission once_env (PyRef 10) example_store) = Some out"
  proof (rule plot_mission_terminates)
    show "lookup once_env example_store (PyRef 10) ''results'' \<noteq> None"
      unfolding h1 by simp
  next
    show "lookup once_env w1 r0 ''base'' \<noteq> None"
      if "lookup once_env example_store (PyRef 10) ''results'' = Some (Inr r0, w1)" for r0 w1
    proof -
      from that [unfolded h1] have e1: "r0 = PyRef 11" "w1 = example_store" by simp_all
      show ?thesis unfolding e1 h2 by simp
    qed
  next
    show "routine once_env plot_aerodynamic_coefficients results w2 \<noteq> None"
      if "lookup once_env example_store (PyRef 10) ''results'' = Some (Inr r0, w1)"
        and "lookup once_env w1 r0 ''base'' = Some (Inr results, w2)" for r0 w1 results w2
    proof -
      from that(1) [unfolded h1] have e1: "r0 = PyRef 11" "w1 = example_store" by simp_all
      from that(2) [unfolded e1 h2] have e2: "results = PyRef 12" "w2 = example_store"
        by simp_all
      show ?thesis unfolding e2 h3 by simp
    qed
  next
    show "routine once_env plot_drag_components results w3 \<noteq> None"
      if "lookup once_env example_store (PyRef 10) ''results'' = Some (Inr r0, w1)"
        and "lookup once_env w1 r0 ''base'' = Some (Inr results, w2)"
        and "routine once_env plot_aerodynamic_coefficients results w2 = Some (Inr v1, w3)"
      for r0 w1 results w2 v1 w3
    proof -
      from that(1) [unfolded h1] have e1: "r0 = PyRef 11" "w1 = example_store" by simp_all
      from that(2) [unfolded e1 h2] have e2: "results = PyRef 12" "w2 = example_store"
        by simp_all
      from that(3) [unfolded e2 h3] have e3: "w3 = mark ''aero'' 12 example_store" by simp
      show ?thesis unfolding e2 e3 h4 by simp
    qed
  next
    show "routine once_env plot_altitude_sfc_weight results w4 \<noteq> None"
      if "lookup once_env example_store (PyRef 10) ''results'' = Some (Inr r0, w1)"
        and "lookup once_env w1 r0 ''base'' = Some (Inr results, w2)"
        and "routine once_env plot_aerodynamic_coefficients results w2 = Some (Inr v1, w3)"
        and "routine once_env plot_drag_components results w3 = Some (Inr v2, w4)"
      for r0 w1 results w2 v1 w3 v2 w4
    proof -
      from that(1) [unfolded h1] have e1: "r0 = PyRef 11" "w1 = example_store" by simp_all
      from that(2) [unfolded e1 h2] have e2: "results = PyRef 12" "w2 = example_store"
        by simp_all
      from that(3) [unfolded e2 h3] have e3: "w3 = mark ''aero'' 12 example_store" by simp
      from that(4) [unfolded e2 e3 h4]
      have e4: "w4 = mark ''drag'' 12 (mark ''aero'' 12 example_store)" by simp
      show ?thesis unfolding e2 e4 h5 by simp
    qed
  qed
  with h1 h2 h3 h4 h5' again show ?thesis by blast
qed

end
